theory Spec2Isabelle
  imports Main "HOL-Library.Word"
begin

unbundle bit_operations_syntax

section \<open>The Go standard library functions the program calls\<close>

text \<open>
  s3verify hashes with \<^verbatim>\<open>crypto/sha1\<close>, \<^verbatim>\<open>crypto/sha256\<close> and \<^verbatim>\<open>hash/crc32\<close> and prints
  digests with \<^verbatim>\<open>encoding/base64\<close>. These are not code of the repository; they are written
  out here as the functions they compute, so that runs of the program can be evaluated.
\<close>

type_synonym byte = "8 word"

subsection \<open>\<^verbatim>\<open>base64.StdEncoding.EncodeToString\<close>\<close>

definition encodeStd :: string where
  "encodeStd = ''ABCDEFGHIJKLMNOPQRSTUVWXYZabcdefghijklmnopqrstuvwxyz0123456789+/''"

definition b64char :: "nat \<Rightarrow> char" where
  "b64char i = encodeStd ! (i mod 64)"

fun EncodeToString :: "byte list \<Rightarrow> string" where
  "EncodeToString (a # b # c # src) =
     (let v = unat a * 65536 + unat b * 256 + unat c
      in b64char (v div 262144) # b64char (v div 4096) # b64char (v div 64) # b64char v
         # EncodeToString src)"
| "EncodeToString [a, b] =
     (let v = unat a * 65536 + unat b * 256
      in [b64char (v div 262144), b64char (v div 4096), b64char (v div 64), CHR ''=''])"
| "EncodeToString [a] =
     (let v = unat a * 65536
      in [b64char (v div 262144), b64char (v div 4096), CHR ''='', CHR ''=''])"
| "EncodeToString [] = []"

subsection \<open>\<^verbatim>\<open>hash/crc32\<close>\<close>

text \<open>The two polynomials, \<^verbatim>\<open>crc32.IEEE\<close> and \<^verbatim>\<open>crc32.Castagnoli\<close>, in reversed form.\<close>

definition crc32_IEEE :: "32 word" where
  "crc32_IEEE = 0xedb88320"

definition crc32_Castagnoli :: "32 word" where
  "crc32_Castagnoli = 0x82f63b78"

definition crc32_shift :: "32 word \<Rightarrow> 32 word \<Rightarrow> 32 word" where
  "crc32_shift poly crc = (if bit crc 0 then drop_bit 1 crc XOR poly else drop_bit 1 crc)"

text \<open>\<^verbatim>\<open>crc32.MakeTable(poly)[i]\<close>: eight shifts of the index.\<close>

definition crc32_MakeTable :: "32 word \<Rightarrow> 32 word \<Rightarrow> 32 word" where
  "crc32_MakeTable poly i = (crc32_shift poly ^^ 8) i"

definition crc32_step :: "32 word \<Rightarrow> 32 word \<Rightarrow> byte \<Rightarrow> 32 word" where
  "crc32_step poly crc v = crc32_MakeTable poly ((crc XOR ucast v) AND 0xff) XOR drop_bit 8 crc"

text \<open>\<^verbatim>\<open>crc32.Update(crc, tab, p)\<close>: complement, one table step for each byte, complement.\<close>

definition crc32_Update :: "32 word \<Rightarrow> 32 word \<Rightarrow> byte list \<Rightarrow> 32 word" where
  "crc32_Update poly crc p = NOT (foldl (crc32_step poly) (NOT crc) p)"

definition bytes_be32 :: "32 word \<Rightarrow> byte list" where
  "bytes_be32 s = [ucast (drop_bit 24 s), ucast (drop_bit 16 s), ucast (drop_bit 8 s), ucast s]"

text \<open>The digest \<^verbatim>\<open>Sum(nil)\<close> of a CRC-32 hash that was written the bytes \<open>p\<close>: the four
  bytes of the checksum, most significant first.\<close>

definition crc32_Sum :: "32 word \<Rightarrow> byte list \<Rightarrow> byte list" where
  "crc32_Sum poly p = bytes_be32 (crc32_Update poly 0 p)"

subsection \<open>\<^verbatim>\<open>crypto/sha256\<close> and \<^verbatim>\<open>crypto/sha1\<close> (FIPS 180-4)\<close>

text \<open>The round constants of SHA-256 are the first 32 bits of the fractional parts of the
  cube roots of the first 64 primes, the initial state those of the square roots of the
  first 8 primes; both are written in decimal.\<close>

fun words_be :: "byte list \<Rightarrow> 32 word list" where
  "words_be (a # b # c # d # p) =
     (push_bit 24 (ucast a) OR push_bit 16 (ucast b) OR push_bit 8 (ucast c) OR ucast d)
       # words_be p"
| "words_be p = []"

definition bytes_be64 :: "64 word \<Rightarrow> byte list" where
  "bytes_be64 n = map (\<lambda>k. ucast (drop_bit (8 * k) n)) [7, 6, 5, 4, 3, 2, 1, 0]"

text \<open>Padding: the bit 1, zeros up to 56 modulo 64 bytes, the length in bits on 8 bytes.\<close>

definition sha_pad :: "byte list \<Rightarrow> byte list" where
  "sha_pad p = p @ [0x80] @ replicate ((119 - length p mod 64) mod 64) 0
                 @ bytes_be64 (of_nat (8 * length p))"

fun sha_blocks :: "byte list \<Rightarrow> byte list list" where
  "sha_blocks [] = []"
| "sha_blocks (b # p) = take 64 (b # p) # sha_blocks (drop 64 (b # p))"

definition sha256_K :: "32 word list" where
  "sha256_K =
    [1116352408, 1899447441, 3049323471, 3921009573, 961987163, 1508970993,
     2453635748, 2870763221, 3624381080, 310598401, 607225278, 1426881987,
     1925078388, 2162078206, 2614888103, 3248222580, 3835390401, 4022224774,
     264347078, 604807628, 770255983, 1249150122, 1555081692, 1996064986,
     2554220882, 2821834349, 2952996808, 3210313671, 3336571891, 3584528711,
     113926993, 338241895, 666307205, 773529912, 1294757372, 1396182291,
     1695183700, 1986661051, 2177026350, 2456956037, 2730485921, 2820302411,
     3259730800, 3345764771, 3516065817, 3600352804, 4094571909, 275423344,
     430227734, 506948616, 659060556, 883997877, 958139571, 1322822218,
     1537002063, 1747873779, 1955562222, 2024104815, 2227730452, 2361852424,
     2428436474, 2756734187, 3204031479, 3329325298]"

definition sha256_init :: "32 word list" where
  "sha256_init =
    [1779033703, 3144134277, 1013904242, 2773480762, 1359893119, 2600822924,
     528734635, 1541459225]"

definition sha256_extend :: "32 word list \<Rightarrow> 32 word list" where
  "sha256_extend w =
     (let n = length w; v2 = w ! (n - 2); v15 = w ! (n - 15)
      in w @ [(word_rotr 17 v2 XOR word_rotr 19 v2 XOR drop_bit 10 v2) + w ! (n - 7)
              + (word_rotr 7 v15 XOR word_rotr 18 v15 XOR drop_bit 3 v15) + w ! (n - 16)])"

fun sha256_round :: "32 word list \<Rightarrow> 32 word \<times> 32 word \<Rightarrow> 32 word list" where
  "sha256_round [a, b, c, d, e, f, g, h] (k, w) =
     (let t1 = h + (word_rotr 6 e XOR word_rotr 11 e XOR word_rotr 25 e)
               + ((e AND f) XOR (NOT e AND g)) + k + w;
          t2 = (word_rotr 2 a XOR word_rotr 13 a XOR word_rotr 22 a)
               + ((a AND b) XOR (a AND c) XOR (b AND c))
      in [t1 + t2, a, b, c, d + t1, e, f, g])"
| "sha256_round st kw = st"

definition sha256_block :: "32 word list \<Rightarrow> byte list \<Rightarrow> 32 word list" where
  "sha256_block st blk =
     map2 (+) st (foldl sha256_round st (zip sha256_K ((sha256_extend ^^ 48) (words_be blk))))"

text \<open>The digest \<^verbatim>\<open>Sum(nil)\<close> of a \<^verbatim>\<open>sha256.New()\<close> hash that was written the bytes \<open>p\<close>.\<close>

definition sha256_Sum :: "byte list \<Rightarrow> byte list" where
  "sha256_Sum p = concat (map bytes_be32 (foldl sha256_block sha256_init (sha_blocks (sha_pad p))))"

definition sha1_init :: "32 word list" where
  "sha1_init = [0x67452301, 0xefcdab89, 0x98badcfe, 0x10325476, 0xc3d2e1f0]"

definition sha1_extend :: "32 word list \<Rightarrow> 32 word list" where
  "sha1_extend w =
     (let n = length w
      in w @ [word_rotl 1 (w ! (n - 3) XOR w ! (n - 8) XOR w ! (n - 14) XOR w ! (n - 16))])"

fun sha1_round :: "32 word list \<Rightarrow> nat \<times> 32 word \<Rightarrow> 32 word list" where
  "sha1_round [a, b, c, d, e] (t, w) =
     (let f = (if t < 20 then (b AND c) OR (NOT b AND d)
               else if t < 40 then b XOR c XOR d
               else if t < 60 then (b AND c) OR (b AND d) OR (c AND d)
               else b XOR c XOR d);
          k = (if t < 20 then 0x5a827999 else if t < 40 then 0x6ed9eba1
               else if t < 60 then 0x8f1bbcdc else 0xca62c1d6)
      in [word_rotl 5 a + f + e + k + w, a, word_rotl 30 b, c, d])"
| "sha1_round st tw = st"

definition sha1_block :: "32 word list \<Rightarrow> byte list \<Rightarrow> 32 word list" where
  "sha1_block st blk =
     map2 (+) st (foldl sha1_round st (zip [0..<80] ((sha1_extend ^^ 64) (words_be blk))))"

text \<open>The digest \<^verbatim>\<open>Sum(nil)\<close> of a \<^verbatim>\<open>sha1.New()\<close> hash that was written the bytes \<open>p\<close>.\<close>

definition sha1_Sum :: "byte list \<Rightarrow> byte list" where
  "sha1_Sum p = concat (map bytes_be32 (foldl sha1_block sha1_init (sha_blocks (sha_pad p))))"


section \<open>The S3 types the program reads\<close>

text \<open>
  \<^verbatim>\<open>s3Types.Checksum\<close>: four optional base64 strings (\<^verbatim>\<open>*string\<close>, \<^verbatim>\<open>nil\<close> when absent).
  \<^verbatim>\<open>s3Types.ObjectPart\<close> has the same four fields and, besides, \<^verbatim>\<open>PartNumber int32\<close> and
  \<^verbatim>\<open>Size int64\<close>; it is written as an extension of the first record, so that the field
  names of the source can be kept for both.
\<close>

record Checksum =
  ChecksumCRC32 :: "string option"
  ChecksumCRC32C :: "string option"
  ChecksumSHA1 :: "string option"
  ChecksumSHA256 :: "string option"

record ObjectPart = Checksum +
  PartNumber :: "32 word"
  Size :: "64 word"

text \<open>\<^verbatim>\<open>s3Types.GetObjectAttributesParts\<close> and \<^verbatim>\<open>s3.GetObjectAttributesOutput\<close>, with the
  fields the program requests (\<^verbatim>\<open>Checksum\<close>, \<^verbatim>\<open>ObjectParts\<close>, \<^verbatim>\<open>ObjectSize\<close>).\<close>

record GetObjectAttributesParts =
  IsTruncated :: bool
  Parts :: "ObjectPart list"
  TotalPartsCount :: "32 word"

record GetObjectAttributesOutput =
  Checksum :: "Checksum option"
  ObjectParts :: "GetObjectAttributesParts option"
  ObjectSize :: "64 word"

text \<open>\<^verbatim>\<open>s3Types.ChecksumAlgorithm\<close> is a string type with four named values.\<close>

type_synonym ChecksumAlgorithm = string

definition ChecksumAlgorithmCrc32 :: ChecksumAlgorithm where
  "ChecksumAlgorithmCrc32 = ''CRC32''"

definition ChecksumAlgorithmCrc32c :: ChecksumAlgorithm where
  "ChecksumAlgorithmCrc32c = ''CRC32C''"

definition ChecksumAlgorithmSha1 :: ChecksumAlgorithm where
  "ChecksumAlgorithmSha1 = ''SHA1''"

definition ChecksumAlgorithmSha256 :: ChecksumAlgorithm where
  "ChecksumAlgorithmSha256 = ''SHA256''"

section \<open>Hash objects\<close>

text \<open>
  A \<^verbatim>\<open>hash.Hash\<close> is created empty by one of four constructors, absorbs bytes with
  \<^verbatim>\<open>Write\<close> and yields with \<^verbatim>\<open>Sum(nil)\<close> the digest of all the bytes written since its
  creation; \<^verbatim>\<open>Sum\<close> does not change the hash, and only \<^verbatim>\<open>Reset\<close> empties it.
\<close>

datatype digestKind = Sha1 | Sha256 | Crc32 "32 word"

record Hash =
  kind :: digestKind
  written :: "byte list"

definition sha1_New :: Hash where
  "sha1_New = \<lparr>kind = Sha1, written = []\<rparr>"

definition sha256_New :: Hash where
  "sha256_New = \<lparr>kind = Sha256, written = []\<rparr>"

definition crc32_New :: "32 word \<Rightarrow> Hash" where
  "crc32_New tab = \<lparr>kind = Crc32 tab, written = []\<rparr>"

definition crc32_NewIEEE :: Hash where
  "crc32_NewIEEE = crc32_New crc32_IEEE"

definition Write :: "Hash \<Rightarrow> byte list \<Rightarrow> Hash" where
  "Write h p = h\<lparr>written := written h @ p\<rparr>"

definition digest :: "digestKind \<Rightarrow> byte list \<Rightarrow> byte list" where
  "digest k p = (case k of Sha1 \<Rightarrow> sha1_Sum p | Sha256 \<Rightarrow> sha256_Sum p
                 | Crc32 tab \<Rightarrow> crc32_Sum tab p)"

definition Sum :: "Hash \<Rightarrow> byte list" where
  "Sum h = digest (kind h) (written h)"

section \<open>The helpers of \<^verbatim>\<open>utils.go\<close>\<close>

text \<open>The four helpers on checksums, as written in \<^verbatim>\<open>src/unnamed/part_000\<close>. They take a
  pointer to the record, which their callers never pass as \<^verbatim>\<open>nil\<close>. A Go function here
  either returns an \<^verbatim>\<open>error\<close> or stops the program with a run-time panic (a \<^verbatim>\<open>nil\<close> pointer
  dereference).\<close>

datatype error = Error string | NilDereference

definition getChecksumAlgorithm :: "Checksum \<Rightarrow> error + ChecksumAlgorithm" where
  "getChecksumAlgorithm v =
     (if ChecksumSHA1 v \<noteq> None then Inr ChecksumAlgorithmSha1
      else if ChecksumSHA256 v \<noteq> None then Inr ChecksumAlgorithmSha256
      else if ChecksumCRC32 v \<noteq> None then Inr ChecksumAlgorithmCrc32
      else if ChecksumCRC32C v \<noteq> None then Inr ChecksumAlgorithmCrc32c
      else Inl (Error ''unsupported checksum algorithm''))"

text \<open>\<^verbatim>\<open>*p\<close> for a \<^verbatim>\<open>*string\<close>: the string, or the panic when \<open>p\<close> is \<^verbatim>\<open>nil\<close>.\<close>

definition deref :: "string option \<Rightarrow> error + string" where
  "deref p = (case p of None \<Rightarrow> Inl NilDereference | Some s \<Rightarrow> Inr s)"

definition getChecksum :: "Checksum \<Rightarrow> ChecksumAlgorithm \<Rightarrow> error + string" where
  "getChecksum v algorithm =
     (if algorithm = ChecksumAlgorithmSha1 then deref (ChecksumSHA1 v)
      else if algorithm = ChecksumAlgorithmSha256 then deref (ChecksumSHA256 v)
      else if algorithm = ChecksumAlgorithmCrc32 then deref (ChecksumCRC32 v)
      else if algorithm = ChecksumAlgorithmCrc32c then deref (ChecksumCRC32C v)
      else Inl (Error (''unsupported checksum algorithm, '' @ algorithm)))"

definition getPartChecksum :: "ObjectPart \<Rightarrow> ChecksumAlgorithm \<Rightarrow> error + string" where
  "getPartChecksum v algorithm =
     (if algorithm = ChecksumAlgorithmSha1 then deref (ChecksumSHA1 v)
      else if algorithm = ChecksumAlgorithmSha256 then deref (ChecksumSHA256 v)
      else if algorithm = ChecksumAlgorithmCrc32 then deref (ChecksumCRC32 v)
      else if algorithm = ChecksumAlgorithmCrc32c then deref (ChecksumCRC32C v)
      else Inl (Error (''unsupported checksum algorithm, '' @ algorithm)))"

definition newHash :: "ChecksumAlgorithm \<Rightarrow> error + Hash" where
  "newHash v =
     (if v = ChecksumAlgorithmSha1 then Inr sha1_New
      else if v = ChecksumAlgorithmSha256 then Inr sha256_New
      else if v = ChecksumAlgorithmCrc32 then Inr crc32_NewIEEE
      else if v = ChecksumAlgorithmCrc32c then Inr (crc32_New crc32_Castagnoli)
      else Inl (Error (''unsupported checksum algorithm, '' @ v)))"

section \<open>The local file\<close>

text \<open>
  What the program reads of the local file: its size (\<^verbatim>\<open>stat.Size()\<close>), the bytes that
  \<^verbatim>\<open>io.Copy(h, f)\<close> hands to the hash, and the bytes that
  \<^verbatim>\<open>io.Copy(h, io.NewSectionReader(f, off, n))\<close> hands to it. \<open>None\<close> is a copy that does not
  complete: \<^verbatim>\<open>io.Copy\<close> returns an error, or the reader stops the program with a panic. In
  both cases the run ends there, without a verdict.
\<close>

record File =
  Stat_Size :: "64 word"
  Copy :: "byte list option"
  CopySection :: "64 word \<Rightarrow> 64 word \<Rightarrow> byte list option"

text \<open>\<^verbatim>\<open>io.NewSectionReader(r, off, n)\<close> reads up to the offset \<open>off + n\<close>, or up to the largest
  \<^verbatim>\<open>int64\<close> when this sum cannot be formed (the test is made in \<^verbatim>\<open>int64\<close>, where
  \<open>maxint64 - n\<close> wraps around for a negative \<open>n\<close>).\<close>

definition maxint64 :: "64 word" where
  "maxint64 = 0x7fffffffffffffff"

definition sectionLimit :: "64 word \<Rightarrow> 64 word \<Rightarrow> 64 word" where
  "sectionLimit off n = (if sint off \<le> sint (maxint64 - n) then n + off else maxint64)"

text \<open>A regular file with the contents \<open>bs\<close> whose reads do not fail. The section reader
  is at its end at once when its limit is not beyond \<open>off\<close>; otherwise it reads
  \<open>limit - off\<close> bytes from \<open>off\<close>, cut at the end of the file. When this number is negative
  in \<^verbatim>\<open>int64\<close> the reader panics on its buffer (\<^verbatim>\<open>p[0:max]\<close>), and a negative offset is
  refused by \<^verbatim>\<open>ReadAt\<close> with an error. So a section of negative size that starts inside
  the file is the rest of the file, and the sections of the sizes that S3 reports are
  the bytes from \<open>off\<close> up to \<open>off + n\<close>.\<close>

definition regularFile :: "byte list \<Rightarrow> File" where
  "regularFile bs =
     \<lparr>Stat_Size = of_nat (length bs),
      Copy = Some bs,
      CopySection = (\<lambda>off n.
         if sint (sectionLimit off n) \<le> sint off then Some []
         else if sint (sectionLimit off n - off) < 0 then None
         else if sint off < 0 then None
         else Some (take (unat (sectionLimit off n - off)) (drop (unat off) bs)))\<rparr>"

section \<open>\<^verbatim>\<open>main\<close>, from the check of the response to the exit\<close>

text \<open>
  \<^verbatim>\<open>main\<close> of s3verify 0.0.1 (\<^verbatim>\<open>src/unnamed/part_001\<close>), from the test of
  \<^verbatim>\<open>objAttrs.Checksum\<close> (line 240) to the end. What comes before (flags, credentials, the
  request to S3, opening the file and reading its size) yields the two inputs: the response
  \<^verbatim>\<open>objAttrs\<close> and the local file. Of the output only the digests and the OK or FAILED of
  each part are kept; the width of the part number in the format string has no influence
  on what the run does.
\<close>

text \<open>The ways the run ends: the exits with status 1, each with its message, and the exit
  with status 0. \<open>ReadError\<close> is the end of a run whose copy of the file does not
  complete.\<close>

datatype outcome =
    NotUploadedWithChecksum
  | ObjectSizeMismatch "64 word" "64 word"
  | UnsupportedAlgorithm
  | ReadError
  | PartMismatch "32 word" "64 word" "64 word"
  | ChecksumMismatch
  | Match

text \<open>What the run does that can be observed: the reads of the file and the digests it
  prints (a part's line ends with OK or FAILED).\<close>

datatype event =
    ReadFile
  | ReadSection "64 word" "64 word"
  | PrintPart "32 word" string bool
  | PrintLocalChecksum string
  | PrintChecksumOfChecksums string

text \<open>The choice of the algorithm: the object's digest and the two hashes, \<^verbatim>\<open>h\<close> and
  \<^verbatim>\<open>checksumOfChecksums\<close>; \<open>None\<close> is the last branch, the exit.\<close>

definition selectHash :: "Checksum \<Rightarrow> (string \<times> Hash \<times> Hash) option" where
  "selectHash c =
     (case ChecksumSHA1 c of Some s \<Rightarrow> Some (s, sha1_New, sha1_New)
      | None \<Rightarrow>
     (case ChecksumSHA256 c of Some s \<Rightarrow> Some (s, sha256_New, sha256_New)
      | None \<Rightarrow>
     (case ChecksumCRC32 c of Some s \<Rightarrow> Some (s, crc32_NewIEEE, crc32_NewIEEE)
      | None \<Rightarrow>
     (case ChecksumCRC32C c of
        Some s \<Rightarrow> Some (s, crc32_New crc32_Castagnoli, crc32_New crc32_Castagnoli)
      | None \<Rightarrow> None))))"

text \<open>The condition under which a part is reported FAILED.\<close>

definition partFails :: "ObjectPart \<Rightarrow> string \<Rightarrow> bool" where
  "partFails part partSumEncoded =
     ((ChecksumSHA1 part \<noteq> None \<and> Some partSumEncoded \<noteq> ChecksumSHA1 part) \<or>
      (ChecksumSHA256 part \<noteq> None \<and> Some partSumEncoded \<noteq> ChecksumSHA256 part) \<or>
      (ChecksumCRC32 part \<noteq> None \<and> Some partSumEncoded \<noteq> ChecksumCRC32 part) \<or>
      (ChecksumCRC32C part \<noteq> None \<and> Some partSumEncoded \<noteq> ChecksumCRC32C part))"

text \<open>The variables the loop over the parts changes.\<close>

record loopState =
  h :: Hash
  checksumOfChecksums :: Hash
  offset :: "64 word"

text \<open>The loop over the parts: \<open>Inl\<close> is an exit inside the loop, \<open>Inr\<close> the state after the
  last part.\<close>

fun partsLoop :: "File \<Rightarrow> loopState \<Rightarrow> ObjectPart list \<Rightarrow> event list \<times> (outcome + loopState)" where
  "partsLoop f st [] = ([], Inr st)"
| "partsLoop f st (part # parts) =
     (case CopySection f (offset st) (Size part) of
        None \<Rightarrow> ([ReadSection (offset st) (Size part)], Inl ReadError)
      | Some bs \<Rightarrow>
          (let h' = Write (h st) bs;
               partSum = Sum h';
               partSumEncoded = EncodeToString partSum
           in if partFails part partSumEncoded
              then ([ReadSection (offset st) (Size part),
                     PrintPart (PartNumber part) partSumEncoded False],
                    Inl (PartMismatch (PartNumber part) (offset st) (offset st + Size part)))
              else (let r = partsLoop f
                              \<lparr>h = h',
                               checksumOfChecksums = Write (checksumOfChecksums st) partSum,
                               offset = offset st + Size part\<rparr> parts
                    in (ReadSection (offset st) (Size part)
                          # PrintPart (PartNumber part) partSumEncoded True # fst r,
                        snd r))))"

definition singlePart :: "string \<Rightarrow> Hash \<Rightarrow> File \<Rightarrow> event list \<times> outcome" where
  "singlePart objSum h0 f =
     (case Copy f of
        None \<Rightarrow> ([ReadFile], ReadError)
      | Some bs \<Rightarrow>
          (let sum = EncodeToString (Sum (Write h0 bs))
           in ([ReadFile, PrintLocalChecksum sum],
               if sum \<noteq> objSum then ChecksumMismatch else Match)))"

definition multiPart :: "string \<Rightarrow> Hash \<Rightarrow> Hash \<Rightarrow> ObjectPart list \<Rightarrow> File \<Rightarrow> event list \<times> outcome" where
  "multiPart objSum h0 c0 parts f =
     (case partsLoop f \<lparr>h = h0, checksumOfChecksums = c0, offset = 0\<rparr> parts of
        (evs, Inl out) \<Rightarrow> (evs, out)
      | (evs, Inr st) \<Rightarrow>
          (let sum = EncodeToString (Sum (checksumOfChecksums st))
           in (evs @ [PrintChecksumOfChecksums sum],
               if sum \<noteq> objSum then ChecksumMismatch else Match)))"

text \<open>The run from the choice of the algorithm on: hashing and comparing.\<close>

definition hashObject :: "Checksum \<Rightarrow> GetObjectAttributesOutput \<Rightarrow> File \<Rightarrow> event list \<times> outcome" where
  "hashObject c objAttrs f =
     (case selectHash c of
        None \<Rightarrow> ([], UnsupportedAlgorithm)
      | Some (objSum, h0, c0) \<Rightarrow>
          (case ObjectParts objAttrs of
             None \<Rightarrow> singlePart objSum h0 f
           | Some ps \<Rightarrow> multiPart objSum h0 c0 (Parts ps) f))"

text \<open>The run once the response is known to carry a checksum record \<open>c\<close>: the sizes are
  compared first.\<close>

definition verifyObject :: "Checksum \<Rightarrow> GetObjectAttributesOutput \<Rightarrow> File \<Rightarrow> event list \<times> outcome" where
  "verifyObject c objAttrs f =
     (if ObjectSize objAttrs \<noteq> Stat_Size f
      then ([], ObjectSizeMismatch (ObjectSize objAttrs) (Stat_Size f))
      else hashObject c objAttrs f)"

text \<open>The run from the check of the response (\<^verbatim>\<open>objAttrs.Checksum == nil\<close>) to the exit.\<close>

definition verify :: "GetObjectAttributesOutput \<Rightarrow> File \<Rightarrow> event list \<times> outcome" where
  "verify objAttrs f =
     (case Checksum objAttrs of
        None \<Rightarrow> ([], NotUploadedWithChecksum)
      | Some c \<Rightarrow> verifyObject c objAttrs f)"


section \<open>Definitions used to state the properties\<close>

text \<open>The bytes that the loop reads for each part, as long as the reads succeed.\<close>

fun sectionsRead :: "File \<Rightarrow> 64 word \<Rightarrow> ObjectPart list \<Rightarrow> byte list list" where
  "sectionsRead f off [] = []"
| "sectionsRead f off (part # parts) =
     (case CopySection f off (Size part) of
        None \<Rightarrow> []
      | Some bs \<Rightarrow> bs # sectionsRead f (off + Size part) parts)"

text \<open>The same parts under other part numbers, and a run with the part numbers blanked.\<close>

fun renumber :: "32 word list \<Rightarrow> ObjectPart list \<Rightarrow> ObjectPart list" where
  "renumber (n # ns) (part # parts) = part\<lparr>PartNumber := n\<rparr> # renumber ns parts"
| "renumber ns parts = parts"

fun unlabelEvent :: "event \<Rightarrow> event" where
  "unlabelEvent (PrintPart n s ok) = PrintPart 0 s ok"
| "unlabelEvent e = e"

fun unlabelOutcome :: "outcome \<Rightarrow> outcome" where
  "unlabelOutcome (PartMismatch n a b) = PartMismatch 0 a b"
| "unlabelOutcome out = out"

definition unlabel :: "event list \<times> outcome \<Rightarrow> event list \<times> outcome" where
  "unlabel r = (map unlabelEvent (fst r), unlabelOutcome (snd r))"

text \<open>A file has the contents \<open>bs\<close> when its size is their length and every copy that
  completes delivers the bytes that the regular file with these contents delivers. Which
  copies fail is left open: it may differ from one run to the next.\<close>

definition hasContents :: "byte list \<Rightarrow> File \<Rightarrow> bool" where
  "hasContents bs f \<longleftrightarrow>
     Stat_Size f = of_nat (length bs) \<and>
     (Copy f = None \<or> Copy f = Some bs) \<and>
     (\<forall>off n. CopySection f off n = None \<or>
              CopySection f off n = CopySection (regularFile bs) off n)"

text \<open>Responses for objects uploaded with CRC32 checksums, for the runs that are evaluated.\<close>

definition crc32Part :: "32 word \<Rightarrow> 64 word \<Rightarrow> string option \<Rightarrow> ObjectPart" where
  "crc32Part n sz d =
     \<lparr>ChecksumCRC32 = d, ChecksumCRC32C = None, ChecksumSHA1 = None, ChecksumSHA256 = None,
      PartNumber = n, Size = sz\<rparr>"

definition crc32Object :: "string \<Rightarrow> 64 word \<Rightarrow> GetObjectAttributesParts option \<Rightarrow> GetObjectAttributesOutput" where
  "crc32Object d sz ps =
     \<lparr>Checksum = Some \<lparr>ChecksumCRC32 = Some d, ChecksumCRC32C = None, ChecksumSHA1 = None,
                        ChecksumSHA256 = None\<rparr>,
      ObjectParts = ps, ObjectSize = sz\<rparr>"

section \<open>Evaluation of the checksums of small inputs\<close>

lemma funpow8: "(f ^^ 8) x = f (f (f (f (f (f (f (f x)))))))"
  by (simp add: eval_nat_numeral)

lemmas crc_eval = crc32_Sum_def crc32_Update_def crc32_step_def crc32_MakeTable_def funpow8
  crc32_shift_def crc32_IEEE_def bytes_be32_def mask_eq_exp_minus_1

lemma crc_a: "crc32_Sum crc32_IEEE [97] = [232, 183, 190, 67]"
  by (simp add: crc_eval)

lemma crc_b: "crc32_Sum crc32_IEEE [98] = [113, 190, 239, 249]"
  by (simp add: crc_eval)

lemma crc_ab: "crc32_Sum crc32_IEEE [97, 98] = [158, 131, 72, 109]"
  by (simp add: crc_eval)

lemma crc_da: "crc32_Sum crc32_IEEE [232, 183, 190, 67] = [103, 13, 205, 66]"
  by (simp add: crc_eval)

lemma crc_da_dab:
  "crc32_Sum crc32_IEEE [232, 183, 190, 67, 158, 131, 72, 109] = [90, 25, 43, 169]"
  by (simp add: crc_eval)

lemma crc_da_db:
  "crc32_Sum crc32_IEEE [232, 183, 190, 67, 113, 190, 239, 249] = [238, 146, 113, 119]"
  by (simp add: crc_eval)

lemmas run_eval = verify_def verifyObject_def hashObject_def selectHash_def multiPart_def
  singlePart_def regularFile_def partFails_def Write_def Sum_def digest_def crc32_NewIEEE_def
  crc32_New_def crc32Part_def crc32Object_def Let_def
  crc_a crc_b crc_ab crc_da crc_da_dab crc_da_db b64char_def encodeStd_def
  sectionLimit_def maxint64_def

section \<open>The loop over the parts\<close>

lemma partsLoop_append:
  "partsLoop f st (xs @ ys) =
     (case partsLoop f st xs of
        (evs, Inl out) \<Rightarrow> (evs, Inl out)
      | (evs, Inr st') \<Rightarrow> (evs @ fst (partsLoop f st' ys), snd (partsLoop f st' ys)))"
proof (induction xs arbitrary: st)
  case Nil
  show ?case by simp
next
  case (Cons x xs)
  show ?case
    by (simp add: Cons.IH Let_def split: option.split prod.split sum.split)
qed

lemma partsLoop_Cons_Inr:
  assumes "partsLoop f st (p # ps) = (evs, Inr st')"
  obtains bs evs' where "CopySection f (offset st) (Size p) = Some bs"
    and "\<not> partFails p (EncodeToString (Sum (Write (h st) bs)))"
    and "partsLoop f \<lparr>h = Write (h st) bs,
           checksumOfChecksums = Write (checksumOfChecksums st) (Sum (Write (h st) bs)),
           offset = offset st + Size p\<rparr> ps = (evs', Inr st')"
    and "evs = ReadSection (offset st) (Size p)
                 # PrintPart (PartNumber p) (EncodeToString (Sum (Write (h st) bs))) True # evs'"
proof (cases "CopySection f (offset st) (Size p)")
  case None
  with assms show ?thesis by simp
next
  case (Some bs)
  let ?st1 = "\<lparr>h = Write (h st) bs,
               checksumOfChecksums = Write (checksumOfChecksums st) (Sum (Write (h st) bs)),
               offset = offset st + Size p\<rparr>"
  from assms Some have nf: "\<not> partFails p (EncodeToString (Sum (Write (h st) bs)))"
    by (auto simp: Let_def split: if_splits)
  with assms Some have "snd (partsLoop f ?st1 ps) = Inr st'"
    and "evs = ReadSection (offset st) (Size p)
                 # PrintPart (PartNumber p) (EncodeToString (Sum (Write (h st) bs))) True
                 # fst (partsLoop f ?st1 ps)"
    by (auto simp: Let_def)
  with Some nf that [of bs "fst (partsLoop f ?st1 ps)"] show ?thesis
    by (metis prod.collapse)
qed

lemma partsLoop_offset:
  "partsLoop f st ps = (evs, Inr st') \<Longrightarrow> offset st' = offset st + sum_list (map Size ps)"
proof (induction ps arbitrary: st evs)
  case Nil
  then show ?case by simp
next
  case (Cons p ps)
  from Cons.prems show ?case
  proof (rule partsLoop_Cons_Inr)
    fix bs evs'
    assume "partsLoop f \<lparr>h = Write (h st) bs,
           checksumOfChecksums = Write (checksumOfChecksums st) (Sum (Write (h st) bs)),
           offset = offset st + Size p\<rparr> ps = (evs', Inr st')"
    from Cons.IH [OF this] show ?thesis by (simp add: add.assoc)
  qed
qed

lemma partFails_iff:
  "partFails part enc \<longleftrightarrow>
     (\<exists>d. (ChecksumSHA1 part = Some d \<or> ChecksumSHA256 part = Some d \<or>
           ChecksumCRC32 part = Some d \<or> ChecksumCRC32C part = Some d) \<and> enc \<noteq> d)"
  by (cases "ChecksumSHA1 part"; cases "ChecksumSHA256 part"; cases "ChecksumCRC32 part";
      cases "ChecksumCRC32C part") (auto simp: partFails_def)

lemma partsLoop_step:
  assumes "partsLoop f st pre = (evs, Inr st')"
    and "CopySection f (offset st') (Size part) = Some bs"
  shows "partsLoop f st (pre @ part # post) =
     (let partSum = Sum (Write (h st') bs); enc = EncodeToString partSum
      in if partFails part enc
         then (evs @ [ReadSection (offset st') (Size part), PrintPart (PartNumber part) enc False],
               Inl (PartMismatch (PartNumber part) (offset st') (offset st' + Size part)))
         else (let r = partsLoop f \<lparr>h = Write (h st') bs,
                         checksumOfChecksums = Write (checksumOfChecksums st') partSum,
                         offset = offset st' + Size part\<rparr> post
               in (evs @ ReadSection (offset st') (Size part)
                     # PrintPart (PartNumber part) enc True # fst r, snd r)))"
  using assms by (simp add: partsLoop_append Let_def)

lemma selectHash_fresh:
  "selectHash c = Some (objSum, h0, c0) \<Longrightarrow> c0 = h0 \<and> written h0 = []"
  by (auto simp: selectHash_def sha1_New_def sha256_New_def crc32_NewIEEE_def crc32_New_def
           split: option.splits)

lemma verify_multiPart:
  assumes "Checksum objAttrs = Some c" and "ObjectSize objAttrs = Stat_Size f"
    and "selectHash c = Some (objSum, h0, c0)" and "ObjectParts objAttrs = Some ps"
  shows "verify objAttrs f = multiPart objSum h0 c0 (Parts ps) f"
  using assms by (simp add: verify_def verifyObject_def hashObject_def)


lemma partFails_PartNumber [simp]: "partFails (part\<lparr>PartNumber := n\<rparr>) enc = partFails part enc"
  by (simp add: partFails_def)

lemma partsLoop_renumber:
  "map unlabelEvent (fst (partsLoop f st (renumber ns ps))) =
     map unlabelEvent (fst (partsLoop f st ps)) \<and>
   map_sum unlabelOutcome (\<lambda>s. s) (snd (partsLoop f st (renumber ns ps))) =
     map_sum unlabelOutcome (\<lambda>s. s) (snd (partsLoop f st ps))"
proof (induction ns ps arbitrary: st rule: renumber.induct)
  case (1 n ns part parts)
  show ?case
    by (simp add: "1.IH" Let_def split: option.split)
qed simp_all

lemma hash_accumulates:
  "partsLoop f st ps = (evs, Inr st') \<Longrightarrow>
     kind (h st') = kind (h st) \<and>
     written (h st') = written (h st) @ concat (sectionsRead f (offset st) ps)"
proof (induction ps arbitrary: st evs)
  case Nil
  then show ?case by simp
next
  case (Cons p ps)
  from Cons.prems show ?case
  proof (rule partsLoop_Cons_Inr)
    fix bs evs'
    assume bs: "CopySection f (offset st) (Size p) = Some bs"
      and "partsLoop f \<lparr>h = Write (h st) bs,
           checksumOfChecksums = Write (checksumOfChecksums st) (Sum (Write (h st) bs)),
           offset = offset st + Size p\<rparr> ps = (evs', Inr st')"
    from Cons.IH [OF this(2)] bs show ?thesis by (simp add: Write_def)
  qed
qed

section \<open>Runs on files with the same contents\<close>

lemma partsLoop_same_reads:
  assumes "\<forall>off n. CopySection f off n = None \<or> CopySection f off n = CopySection g off n"
    and "snd (partsLoop f st ps) \<noteq> Inl ReadError"
  shows "partsLoop f st ps = partsLoop g st ps"
  using assms(2)
proof (induction ps arbitrary: st)
  case Nil
  show ?case by simp
next
  case (Cons p ps)
  show ?case
  proof (cases "CopySection f (offset st) (Size p)")
    case None
    with Cons.prems show ?thesis by simp
  next
    case (Some bs)
    with assms(1) have g: "CopySection g (offset st) (Size p) = Some bs"
      by (metis option.distinct(1))
    show ?thesis
    proof (cases "partFails p (EncodeToString (Sum (Write (h st) bs)))")
      case True
      with Some g show ?thesis by (simp add: Let_def)
    next
      case False
      let ?st1 = "\<lparr>h = Write (h st) bs,
               checksumOfChecksums = Write (checksumOfChecksums st) (Sum (Write (h st) bs)),
               offset = offset st + Size p\<rparr>"
      from Cons.prems Some False have "snd (partsLoop f ?st1 ps) \<noteq> Inl ReadError"
        by (simp add: Let_def)
      from Cons.IH [OF this] Some g False show ?thesis by (simp add: Let_def)
    qed
  qed
qed

lemma multiPart_same_reads:
  assumes "\<forall>off n. CopySection f off n = None \<or> CopySection f off n = CopySection g off n"
    and "snd (multiPart objSum h0 c0 parts f) \<noteq> ReadError"
  shows "multiPart objSum h0 c0 parts f = multiPart objSum h0 c0 parts g"
proof -
  let ?st = "\<lparr>h = h0, checksumOfChecksums = c0, offset = 0\<rparr>"
  from assms(2) have "snd (partsLoop f ?st parts) \<noteq> Inl ReadError"
    by (auto simp: multiPart_def split: prod.splits sum.splits)
  from partsLoop_same_reads [OF assms(1) this] show ?thesis by (simp add: multiPart_def)
qed

lemma verify_regularFile:
  assumes "hasContents bs f" and "snd (verify objAttrs f) \<noteq> ReadError"
  shows "verify objAttrs f = verify objAttrs (regularFile bs)"
proof (cases "Checksum objAttrs")
  case None
  then show ?thesis by (simp add: verify_def)
next
  case c: (Some c)
  from assms(1) have sz: "Stat_Size f = Stat_Size (regularFile bs)"
    by (simp add: hasContents_def regularFile_def)
  show ?thesis
  proof (cases "ObjectSize objAttrs = Stat_Size f")
    case False
    with c sz show ?thesis by (simp add: verify_def verifyObject_def)
  next
    case eq: True
    show ?thesis
    proof (cases "selectHash c")
      case None
      with c sz show ?thesis by (simp add: verify_def verifyObject_def hashObject_def)
    next
      case (Some t3)
      obtain objSum h0 c0 where sel: "selectHash c = Some (objSum, h0, c0)"
        using Some by (cases t3) auto
      show ?thesis
      proof (cases "ObjectParts objAttrs")
        case None
        with assms c eq sel have "Copy f = Some bs"
          by (auto simp: hasContents_def verify_def verifyObject_def hashObject_def
                singlePart_def)
        with c sz sel None show ?thesis
          by (simp add: verify_def verifyObject_def hashObject_def singlePart_def
                regularFile_def)
      next
        case ps: (Some ps)
        from assms(2) c eq sel ps
        have "snd (multiPart objSum h0 c0 (Parts ps) f) \<noteq> ReadError"
          by (simp add: verify_def verifyObject_def hashObject_def)
        moreover from assms(1)
        have "\<forall>off n. CopySection f off n = None \<or>
                CopySection f off n = CopySection (regularFile bs) off n"
          by (simp add: hasContents_def)
        ultimately have "multiPart objSum h0 c0 (Parts ps) f
                           = multiPart objSum h0 c0 (Parts ps) (regularFile bs)"
          by (rule multiPart_same_reads [rotated])
        with c sz sel ps show ?thesis
          by (simp add: verify_def verifyObject_def hashObject_def)
      qed
    qed
  qed
qed

section \<open>The lookups of a digest by algorithm\<close>

lemma getChecksum_present:
  "(ChecksumSHA1 v = Some s \<longrightarrow> getChecksum v ChecksumAlgorithmSha1 = Inr s) \<and>
   (ChecksumSHA256 v = Some s \<longrightarrow> getChecksum v ChecksumAlgorithmSha256 = Inr s) \<and>
   (ChecksumCRC32 v = Some s \<longrightarrow> getChecksum v ChecksumAlgorithmCrc32 = Inr s) \<and>
   (ChecksumCRC32C v = Some s \<longrightarrow> getChecksum v ChecksumAlgorithmCrc32c = Inr s) \<and>
   (ChecksumSHA1 p = Some s \<longrightarrow> getPartChecksum p ChecksumAlgorithmSha1 = Inr s) \<and>
   (ChecksumSHA256 p = Some s \<longrightarrow> getPartChecksum p ChecksumAlgorithmSha256 = Inr s) \<and>
   (ChecksumCRC32 p = Some s \<longrightarrow> getPartChecksum p ChecksumAlgorithmCrc32 = Inr s) \<and>
   (ChecksumCRC32C p = Some s \<longrightarrow> getPartChecksum p ChecksumAlgorithmCrc32c = Inr s) \<and>
   (algorithm \<notin> {ChecksumAlgorithmSha1, ChecksumAlgorithmSha256, ChecksumAlgorithmCrc32,
                  ChecksumAlgorithmCrc32c} \<longrightarrow>
      getChecksum v algorithm = Inl (Error (''unsupported checksum algorithm, '' @ algorithm)) \<and>
      getPartChecksum p algorithm = Inl (Error (''unsupported checksum algorithm, '' @ algorithm)))"
  by (simp add: getChecksum_def getPartChecksum_def deref_def
        ChecksumAlgorithmSha1_def ChecksumAlgorithmSha256_def ChecksumAlgorithmCrc32_def
        ChecksumAlgorithmCrc32c_def)

section \<open>The claims\<close>

text \<open>
  C1 does not hold of this \<^verbatim>\<open>main\<close>: the hash \<^verbatim>\<open>h\<close> is created once, before the loop, and
  is never reset, so after some parts it holds the bytes of all of them (lemma
  \<open>hash_accumulates\<close>) and the digest of the second part is the digest of the first two
  parts together. For the file "ab", uploaded in two parts of one byte with the CRC32
  digests of "a" and of "b", the run reads the byte "b" for part 2, prints the digest of
  "ab" and reports that the file does not match part 2.
\<close>

theorem hash_not_reset:
  "verify (crc32Object ''7pJxdw=='' 2
      (Some \<lparr>IsTruncated = False,
             Parts = [crc32Part 1 1 (Some ''6Le+Qw==''), crc32Part 2 1 (Some ''cb7v+Q=='')],
             TotalPartsCount = 2\<rparr>)) (regularFile [97, 98])
   = ([ReadSection 0 1, PrintPart 1 ''6Le+Qw=='' True, ReadSection 1 1,
       PrintPart 2 ''noNIbQ=='' False], PartMismatch 2 1 2)
   \<and> CopySection (regularFile [97, 98]) 1 1 = Some [98]
   \<and> EncodeToString (Sum (Write crc32_NewIEEE [98])) = ''cb7v+Q==''
   \<and> EncodeToString (Sum (Write crc32_NewIEEE [97, 98])) = ''noNIbQ==''"
  by (simp add: run_eval)

text \<open>
  C2, as stated, fails: for an object of one part whose digest is the checksum of
  checksums followed by "-1", the lengths differ, the checksum of checksums is printed
  and compared as it is, and the run ends with the mismatch.
\<close>

theorem no_suffix_counterexample:
  "verify (crc32Object ''Zw3NQg==-1'' 1
      (Some \<lparr>IsTruncated = False, Parts = [crc32Part 1 1 (Some ''6Le+Qw=='')],
             TotalPartsCount = 1\<rparr>)) (regularFile [97])
   = ([ReadSection 0 1, PrintPart 1 ''6Le+Qw=='' True, PrintChecksumOfChecksums ''Zw3NQg==''],
      ChecksumMismatch)
   \<and> length ''Zw3NQg=='' \<noteq> length ''Zw3NQg==-1'' \<and> ''Zw3NQg=='' @ ''-1'' = ''Zw3NQg==-1''"
  by (simp add: run_eval)

text \<open>
  C2, amended. When every part has matched, the checksum of checksums is printed and
  compared as it is, with no suffix: if its length differs from the length of the
  object's digest the run ends with the checksum mismatch, and if the lengths are equal
  the two strings are compared.
\<close>

theorem no_suffix:
  assumes "Checksum objAttrs = Some c" and "ObjectSize objAttrs = Stat_Size f"
    and "selectHash c = Some (objSum, h0, c0)" and "ObjectParts objAttrs = Some ps"
    and "partsLoop f \<lparr>h = h0, checksumOfChecksums = c0, offset = 0\<rparr> (Parts ps) = (evs, Inr st)"
  shows "fst (verify objAttrs f) =
           evs @ [PrintChecksumOfChecksums (EncodeToString (Sum (checksumOfChecksums st)))]
         \<and> snd (verify objAttrs f) =
           (if length (EncodeToString (Sum (checksumOfChecksums st))) \<noteq> length objSum
            then ChecksumMismatch
            else if EncodeToString (Sum (checksumOfChecksums st)) = objSum then Match
            else ChecksumMismatch)"
  by (auto simp: verify_multiPart [OF assms(1-4)] multiPart_def assms(5) Let_def)


theorem no_suffix_witness:
  "fst (verify (crc32Object ''WhkrqQ==-2'' 2
      (Some \<lparr>IsTruncated = False,
             Parts = [crc32Part 1 1 (Some ''6Le+Qw==''), crc32Part 2 1 (Some ''noNIbQ=='')],
             TotalPartsCount = 2\<rparr>)) (regularFile [97, 98]))
   = [ReadSection 0 1, PrintPart 1 ''6Le+Qw=='' True, ReadSection 1 1,
       PrintPart 2 ''noNIbQ=='' True, PrintChecksumOfChecksums ''WhkrqQ=='']
   \<and> snd (verify (crc32Object ''WhkrqQ==-2'' 2
      (Some \<lparr>IsTruncated = False,
             Parts = [crc32Part 1 1 (Some ''6Le+Qw==''), crc32Part 2 1 (Some ''noNIbQ=='')],
             TotalPartsCount = 2\<rparr>)) (regularFile [97, 98])) = ChecksumMismatch"
  using no_suffix
    [where objAttrs = "crc32Object ''WhkrqQ==-2'' 2
      (Some \<lparr>IsTruncated = False,
             Parts = [crc32Part 1 1 (Some ''6Le+Qw==''), crc32Part 2 1 (Some ''noNIbQ=='')],
             TotalPartsCount = 2\<rparr>)"
      and f = "regularFile [97, 98]"
      and c = "\<lparr>ChecksumCRC32 = Some ''WhkrqQ==-2'', ChecksumCRC32C = None, ChecksumSHA1 = None,
                 ChecksumSHA256 = None\<rparr>"
      and objSum = "''WhkrqQ==-2''" and ?h0.0 = crc32_NewIEEE and ?c0.0 = crc32_NewIEEE
      and ps = "\<lparr>IsTruncated = False,
             Parts = [crc32Part 1 1 (Some ''6Le+Qw==''), crc32Part 2 1 (Some ''noNIbQ=='')],
             TotalPartsCount = 2\<rparr>"
      and evs = "[ReadSection 0 1, PrintPart 1 ''6Le+Qw=='' True, ReadSection 1 1,
                  PrintPart 2 ''noNIbQ=='' True]"
      and st = "\<lparr>h = \<lparr>kind = Crc32 crc32_IEEE, written = [97, 98]\<rparr>,
                 checksumOfChecksums =
                   \<lparr>kind = Crc32 crc32_IEEE, written = [232, 183, 190, 67, 158, 131, 72, 109]\<rparr>,
                 offset = 2\<rparr>"]
  by (simp add: run_eval)

text \<open>
  C3, as stated, fails: a listing marked truncated, that declares five parts, holds one
  and numbers it 3, is verified like any other, here with a match.
\<close>

theorem structural_validation_counterexample:
  "verify (crc32Object ''Zw3NQg=='' 1
      (Some \<lparr>IsTruncated = True, Parts = [crc32Part 3 1 (Some ''6Le+Qw=='')],
             TotalPartsCount = 5\<rparr>)) (regularFile [97])
   = ([ReadSection 0 1, PrintPart 3 ''6Le+Qw=='' True, PrintChecksumOfChecksums ''Zw3NQg==''],
      Match)"
  by (simp add: run_eval)

text \<open>
  C3, amended. Nothing of the part listing is validated before the parts are hashed: the
  truncation flag and the declared number of parts have no influence on the run, and the
  part numbers only appear in the report of a part (its line and the mismatch message).
\<close>

theorem no_structural_validation:
  "unlabel (verify (objAttrs\<lparr>ObjectParts :=
        Some \<lparr>IsTruncated = t, Parts = renumber ns parts, TotalPartsCount = n\<rparr>\<rparr>) f)
   = unlabel (verify (objAttrs\<lparr>ObjectParts :=
        Some \<lparr>IsTruncated = t', Parts = parts, TotalPartsCount = n'\<rparr>\<rparr>) f)"
proof (cases "Checksum objAttrs")
  case None
  then show ?thesis by (simp add: verify_def)
next
  case (Some c)
  show ?thesis
  proof (cases "selectHash c")
    case None
    with Some show ?thesis by (simp add: verify_def verifyObject_def hashObject_def)
  next
    case sel: (Some t3)
    obtain objSum h0 c0 where t3: "t3 = (objSum, h0, c0)" by (cases t3) auto
    let ?st = "\<lparr>h = h0, checksumOfChecksums = c0, offset = 0\<rparr>"
    obtain e1 r1 where r1: "partsLoop f ?st (renumber ns parts) = (e1, r1)" by force
    obtain e2 r2 where r2: "partsLoop f ?st parts = (e2, r2)" by force
    from partsLoop_renumber [of f ?st ns parts] r1 r2
    have eq: "map unlabelEvent e1 = map unlabelEvent e2"
      "map_sum unlabelOutcome (\<lambda>s. s) r1 = map_sum unlabelOutcome (\<lambda>s. s) r2" by simp_all
    have "unlabel (multiPart objSum h0 c0 (renumber ns parts) f)
            = unlabel (multiPart objSum h0 c0 parts f)"
      using eq by (cases r1; cases r2) (simp_all add: multiPart_def r1 r2 unlabel_def Let_def)
    with Some sel t3 show ?thesis
      by (simp add: verify_def verifyObject_def hashObject_def unlabel_def)
  qed
qed

text \<open>
  C4. When the parts before have matched and the digest computed for a part differs from a
  digest of that part in the listing, the run ends there: the outcome names the part
  number and the bytes from \<open>offset\<close> to \<open>offset + Size\<close>, where \<open>offset\<close> is the sum of the
  sizes of the parts before, and the read of this part is the last event but one, so no
  later part is read or hashed.
\<close>

theorem part_mismatch_stops:
  assumes "Checksum objAttrs = Some c" and "ObjectSize objAttrs = Stat_Size f"
    and "selectHash c = Some (objSum, h0, c0)" and "ObjectParts objAttrs = Some ps"
    and "Parts ps = pre @ part # post"
    and "partsLoop f \<lparr>h = h0, checksumOfChecksums = c0, offset = 0\<rparr> pre = (evs, Inr st)"
    and "CopySection f (offset st) (Size part) = Some bs"
    and "ChecksumSHA1 part = Some d \<or> ChecksumSHA256 part = Some d \<or>
         ChecksumCRC32 part = Some d \<or> ChecksumCRC32C part = Some d"
    and "EncodeToString (Sum (Write (h st) bs)) \<noteq> d"
  shows "verify objAttrs f =
           (evs @ [ReadSection (offset st) (Size part),
                   PrintPart (PartNumber part) (EncodeToString (Sum (Write (h st) bs))) False],
            PartMismatch (PartNumber part) (offset st) (offset st + Size part))
         \<and> offset st = sum_list (map Size pre)"
proof -
  from assms(8,9) have "partFails part (EncodeToString (Sum (Write (h st) bs)))"
    unfolding partFails_iff by blast
  with partsLoop_step [OF assms(6,7), where post = post]
  have "partsLoop f \<lparr>h = h0, checksumOfChecksums = c0, offset = 0\<rparr> (Parts ps) =
          (evs @ [ReadSection (offset st) (Size part),
                   PrintPart (PartNumber part) (EncodeToString (Sum (Write (h st) bs))) False],
           Inl (PartMismatch (PartNumber part) (offset st) (offset st + Size part)))"
    by (simp add: assms(5) Let_def)
  then have "verify objAttrs f =
           (evs @ [ReadSection (offset st) (Size part),
                   PrintPart (PartNumber part) (EncodeToString (Sum (Write (h st) bs))) False],
            PartMismatch (PartNumber part) (offset st) (offset st + Size part))"
    by (simp add: verify_multiPart [OF assms(1-4)] multiPart_def)
  moreover from partsLoop_offset [OF assms(6)] have "offset st = sum_list (map Size pre)"
    by simp
  ultimately show ?thesis by simp
qed


theorem part_mismatch_stops_witness:
  "verify (crc32Object ''7pJxdw=='' 2
      (Some \<lparr>IsTruncated = False,
             Parts = [crc32Part 1 1 (Some ''6Le+Qw==''), crc32Part 2 1 (Some ''cb7v+Q==''),
                      crc32Part 3 0 None],
             TotalPartsCount = 3\<rparr>)) (regularFile [97, 98])
   = ([ReadSection 0 1, PrintPart 1 ''6Le+Qw=='' True, ReadSection 1 1,
       PrintPart 2 ''noNIbQ=='' False], PartMismatch 2 1 2)"
  using part_mismatch_stops
    [where objAttrs = "crc32Object ''7pJxdw=='' 2
      (Some \<lparr>IsTruncated = False,
             Parts = [crc32Part 1 1 (Some ''6Le+Qw==''), crc32Part 2 1 (Some ''cb7v+Q==''),
                      crc32Part 3 0 None],
             TotalPartsCount = 3\<rparr>)"
      and f = "regularFile [97, 98]"
      and c = "\<lparr>ChecksumCRC32 = Some ''7pJxdw=='', ChecksumCRC32C = None, ChecksumSHA1 = None,
                 ChecksumSHA256 = None\<rparr>"
      and objSum = "''7pJxdw==''" and ?h0.0 = crc32_NewIEEE and ?c0.0 = crc32_NewIEEE
      and ps = "\<lparr>IsTruncated = False,
             Parts = [crc32Part 1 1 (Some ''6Le+Qw==''), crc32Part 2 1 (Some ''cb7v+Q==''),
                      crc32Part 3 0 None],
             TotalPartsCount = 3\<rparr>"
      and pre = "[crc32Part 1 1 (Some ''6Le+Qw=='')]"
      and part = "crc32Part 2 1 (Some ''cb7v+Q=='')"
      and post = "[crc32Part 3 0 None]"
      and evs = "[ReadSection 0 1, PrintPart 1 ''6Le+Qw=='' True]"
      and st = "\<lparr>h = \<lparr>kind = Crc32 crc32_IEEE, written = [97]\<rparr>,
                 checksumOfChecksums = \<lparr>kind = Crc32 crc32_IEEE, written = [232, 183, 190, 67]\<rparr>,
                 offset = 1\<rparr>"
      and bs = "[98]" and d = "''cb7v+Q==''"]
  by (simp add: run_eval)

text \<open>
  C5 does not hold of this \<^verbatim>\<open>main\<close>, by the defect of C1: the digests written to
  \<^verbatim>\<open>checksumOfChecksums\<close> are those of the hash \<^verbatim>\<open>h\<close> that is never reset, so from the second
  part on they are not the digests of the parts. For the file "ab" and a listing of two
  parts of one byte that carry no checksum field (each part matches), the checksum of
  checksums is the digest of the digests of "a" and of "ab"; the object's digest, the
  digest of the digests of "a" and of "b", differs from it and the run ends with the
  mismatch.
\<close>

theorem composite_of_accumulated_digests:
  "verify (crc32Object ''7pJxdw=='' 2
      (Some \<lparr>IsTruncated = False, Parts = [crc32Part 1 1 None, crc32Part 2 1 None],
             TotalPartsCount = 2\<rparr>)) (regularFile [97, 98])
   = ([ReadSection 0 1, PrintPart 1 ''6Le+Qw=='' True, ReadSection 1 1,
       PrintPart 2 ''noNIbQ=='' True, PrintChecksumOfChecksums ''WhkrqQ==''], ChecksumMismatch)
   \<and> EncodeToString (Sum (Write crc32_NewIEEE
         (Sum (Write crc32_NewIEEE [97]) @ Sum (Write crc32_NewIEEE [98])))) = ''7pJxdw==''
   \<and> EncodeToString (Sum (Write crc32_NewIEEE
         (Sum (Write crc32_NewIEEE [97]) @ Sum (Write crc32_NewIEEE [97, 98])))) = ''WhkrqQ==''"
  by (simp add: run_eval)

text \<open>
  C6. The choice of the algorithm tests the four optional fields in the order SHA1, SHA256,
  CRC32, CRC32C: \<^verbatim>\<open>getChecksumAlgorithm\<close> returns the algorithm of the first field that is
  populated, and the error when none is. The choice written out in \<^verbatim>\<open>main\<close> is the same
  one: it yields the digest and the hash that \<^verbatim>\<open>getChecksum\<close> and \<^verbatim>\<open>newHash\<close> give for that
  algorithm, and nothing when no field is populated.
\<close>

theorem getChecksumAlgorithm_first_populated:
  "getChecksumAlgorithm v =
     (case filter (\<lambda>(a, fld). fld \<noteq> None)
             [(ChecksumAlgorithmSha1, ChecksumSHA1 v), (ChecksumAlgorithmSha256, ChecksumSHA256 v),
              (ChecksumAlgorithmCrc32, ChecksumCRC32 v), (ChecksumAlgorithmCrc32c, ChecksumCRC32C v)]
      of [] \<Rightarrow> Inl (Error ''unsupported checksum algorithm'')
       | (a, fld) # rest \<Rightarrow> Inr a)
   \<and> selectHash v =
     (case getChecksumAlgorithm v of
        Inl e \<Rightarrow> None
      | Inr a \<Rightarrow> (case (getChecksum v a, newHash a) of
                    (Inr s, Inr h0) \<Rightarrow> Some (s, h0, h0)
                  | _ \<Rightarrow> None))"
  by (cases "ChecksumSHA1 v"; cases "ChecksumSHA256 v"; cases "ChecksumCRC32 v";
      cases "ChecksumCRC32C v")
     (simp_all add: getChecksumAlgorithm_def selectHash_def getChecksum_def newHash_def deref_def
        ChecksumAlgorithmSha1_def ChecksumAlgorithmSha256_def ChecksumAlgorithmCrc32_def
        ChecksumAlgorithmCrc32c_def)

text \<open>
  C7, as stated, fails: a response without a checksum record ends the run before the sizes
  are compared, so sizes that differ do not always end it with the size mismatch.
\<close>

theorem size_check_counterexample:
  "ObjectSize \<lparr>Checksum = None, ObjectParts = None, ObjectSize = 5\<rparr> \<noteq> Stat_Size (regularFile [97])
   \<and> verify \<lparr>Checksum = None, ObjectParts = None, ObjectSize = 5\<rparr> (regularFile [97])
       = ([], NotUploadedWithChecksum)"
  by (simp add: verify_def regularFile_def)

text \<open>
  C7, amended. When the response carries a checksum record, the sizes are compared before
  anything is read or hashed: sizes that differ end the run with the size mismatch and no
  read; with equal sizes the run is the run without the comparison.
\<close>

theorem size_check_first:
  assumes "Checksum objAttrs = Some c"
  shows "verify objAttrs f =
           (if ObjectSize objAttrs \<noteq> Stat_Size f
            then ([], ObjectSizeMismatch (ObjectSize objAttrs) (Stat_Size f))
            else hashObject c objAttrs f)"
  using assms by (simp add: verify_def verifyObject_def)


theorem size_check_first_witness:
  "verify (crc32Object ''6Le+Qw=='' 5 None) (regularFile [97]) = ([], ObjectSizeMismatch 5 1)
   \<and> verify (crc32Object ''6Le+Qw=='' 1 None) (regularFile [97])
       = ([ReadFile, PrintLocalChecksum ''6Le+Qw==''], Match)"
  using size_check_first [of "crc32Object ''6Le+Qw=='' 5 None" _ "regularFile [97]"]
    size_check_first [of "crc32Object ''6Le+Qw=='' 1 None" _ "regularFile [97]"]
  by (simp add: crc32Object_def regularFile_def hashObject_def selectHash_def singlePart_def
        Write_def Sum_def digest_def crc32_NewIEEE_def crc32_New_def crc_a b64char_def encodeStd_def)

text \<open>
  C8 does not hold of these helpers: when the field of the algorithm is absent,
  \<^verbatim>\<open>getChecksum\<close> and \<^verbatim>\<open>getPartChecksum\<close> dereference a \<^verbatim>\<open>nil\<close> pointer, and the program stops
  with a panic instead of returning an error. (When the field is present they return its
  string, and for an algorithm that is none of the four they return an error: lemma
  \<open>getChecksum_present\<close>.)
\<close>

theorem getChecksum_absent_field_panics:
  "getChecksumAlgorithm \<lparr>ChecksumCRC32 = Some ''6Le+Qw=='', ChecksumCRC32C = None,
                         ChecksumSHA1 = None, ChecksumSHA256 = None\<rparr> = Inr ChecksumAlgorithmCrc32
   \<and> getPartChecksum (crc32Part 1 1 None) ChecksumAlgorithmCrc32 = Inl NilDereference
   \<and> getChecksum \<lparr>ChecksumCRC32 = Some ''6Le+Qw=='', ChecksumCRC32C = None, ChecksumSHA1 = None,
                  ChecksumSHA256 = None\<rparr> ChecksumAlgorithmSha256 = Inl NilDereference"
  by (simp add: getChecksumAlgorithm_def getChecksum_def getPartChecksum_def deref_def
        crc32Part_def ChecksumAlgorithmSha1_def ChecksumAlgorithmSha256_def
        ChecksumAlgorithmCrc32_def ChecksumAlgorithmCrc32c_def)

text \<open>
  C9. The way a run ends is determined by the response and the contents of the file: two
  runs on the same response and on files with the same contents, neither of them cut short
  by a copy that does not complete, end with the same outcome after the same reads and
  prints, whichever other copies would have failed in one run or the other.
\<close>

theorem same_contents_same_outcome:
  assumes "hasContents bs f1" and "hasContents bs f2"
    and "snd (verify objAttrs f1) \<noteq> ReadError" and "snd (verify objAttrs f2) \<noteq> ReadError"
  shows "verify objAttrs f1 = verify objAttrs f2"
  using verify_regularFile [OF assms(1,3)] verify_regularFile [OF assms(2,4)] by simp

theorem same_contents_same_outcome_witness:
  "hasContents [97, 98] (regularFile [97, 98])
   \<and> hasContents [97, 98]
        ((regularFile [97, 98])
           \<lparr>Copy := None,
            CopySection := (\<lambda>off n. if off = 2 then None
                                     else CopySection (regularFile [97, 98]) off n)\<rparr>)
   \<and> verify (crc32Object ''WhkrqQ=='' 2
      (Some \<lparr>IsTruncated = False,
             Parts = [crc32Part 1 1 (Some ''6Le+Qw==''), crc32Part 2 1 (Some ''noNIbQ=='')],
             TotalPartsCount = 2\<rparr>))
        ((regularFile [97, 98])
           \<lparr>Copy := None,
            CopySection := (\<lambda>off n. if off = 2 then None
                                     else CopySection (regularFile [97, 98]) off n)\<rparr>)
     = ([ReadSection 0 1, PrintPart 1 ''6Le+Qw=='' True, ReadSection 1 1,
         PrintPart 2 ''noNIbQ=='' True, PrintChecksumOfChecksums ''WhkrqQ==''], Match)"
proof -
  let ?d = "crc32Object ''WhkrqQ=='' 2
      (Some \<lparr>IsTruncated = False,
             Parts = [crc32Part 1 1 (Some ''6Le+Qw==''), crc32Part 2 1 (Some ''noNIbQ=='')],
             TotalPartsCount = 2\<rparr>)"
  let ?f1 = "regularFile [97, 98]"
  let ?f2 = "(regularFile [97, 98])
           \<lparr>Copy := None,
            CopySection := (\<lambda>off n. if off = 2 then None
                                     else CopySection (regularFile [97, 98]) off n)\<rparr>"
  have h1: "hasContents [97, 98] ?f1" by (simp add: hasContents_def regularFile_def)
  have h2: "hasContents [97, 98] ?f2" by (simp add: hasContents_def regularFile_def)
  have r1: "verify ?d ?f1
     = ([ReadSection 0 1, PrintPart 1 ''6Le+Qw=='' True, ReadSection 1 1,
         PrintPart 2 ''noNIbQ=='' True, PrintChecksumOfChecksums ''WhkrqQ==''], Match)"
    by (simp add: run_eval)
  have r2: "snd (verify ?d ?f2) \<noteq> ReadError" by (simp add: run_eval)
  from same_contents_same_outcome [OF h2 h1 r2] r1 h1 h2 show ?thesis by simp
qed

text \<open>
  C10. The digest computed for a part is compared with every checksum field that the part
  carries, whatever the algorithm chosen for the object: the part fails exactly when one
  of the populated fields differs from it. A part without any checksum field never fails.
\<close>

theorem every_populated_field_compared:
  assumes "partsLoop f st pre = (evs, Inr st')"
    and "CopySection f (offset st') (Size part) = Some bs"
  shows "partsLoop f st (pre @ part # post) =
     (let partSum = Sum (Write (h st') bs); enc = EncodeToString partSum
      in if (\<exists>d. (ChecksumSHA1 part = Some d \<or> ChecksumSHA256 part = Some d \<or>
                  ChecksumCRC32 part = Some d \<or> ChecksumCRC32C part = Some d) \<and> enc \<noteq> d)
         then (evs @ [ReadSection (offset st') (Size part), PrintPart (PartNumber part) enc False],
               Inl (PartMismatch (PartNumber part) (offset st') (offset st' + Size part)))
         else (let r = partsLoop f \<lparr>h = Write (h st') bs,
                         checksumOfChecksums = Write (checksumOfChecksums st') partSum,
                         offset = offset st' + Size part\<rparr> post
               in (evs @ ReadSection (offset st') (Size part)
                     # PrintPart (PartNumber part) enc True # fst r, snd r)))"
  using partsLoop_step [OF assms, where post = post] by (simp add: partFails_iff Let_def)


theorem every_populated_field_compared_witness:
  "partsLoop (regularFile [97]) \<lparr>h = crc32_NewIEEE, checksumOfChecksums = crc32_NewIEEE, offset = 0\<rparr>
     ([] @ \<lparr>ChecksumCRC32 = Some ''6Le+Qw=='', ChecksumCRC32C = None, ChecksumSHA1 = None,
            ChecksumSHA256 = Some ''6Le+Qw'', PartNumber = 1, Size = 1\<rparr> # [])
   = ([ReadSection 0 1, PrintPart 1 ''6Le+Qw=='' False], Inl (PartMismatch 1 0 1))
   \<and> partsLoop (regularFile [97]) \<lparr>h = crc32_NewIEEE, checksumOfChecksums = crc32_NewIEEE, offset = 0\<rparr>
     ([] @ crc32Part 1 1 None # [])
   = ([ReadSection 0 1, PrintPart 1 ''6Le+Qw=='' True],
      Inr \<lparr>h = \<lparr>kind = Crc32 crc32_IEEE, written = [97]\<rparr>,
           checksumOfChecksums = \<lparr>kind = Crc32 crc32_IEEE, written = [232, 183, 190, 67]\<rparr>,
           offset = 1\<rparr>)"
  using every_populated_field_compared
    [where f = "regularFile [97]"
      and st = "\<lparr>h = crc32_NewIEEE, checksumOfChecksums = crc32_NewIEEE, offset = 0\<rparr>"
      and pre = "[]" and evs = "[]"
      and st' = "\<lparr>h = crc32_NewIEEE, checksumOfChecksums = crc32_NewIEEE, offset = 0\<rparr>"
      and part = "\<lparr>ChecksumCRC32 = Some ''6Le+Qw=='', ChecksumCRC32C = None, ChecksumSHA1 = None,
            ChecksumSHA256 = Some ''6Le+Qw'', PartNumber = 1, Size = 1\<rparr>"
      and bs = "[97]" and post = "[]"]
    every_populated_field_compared
    [where f = "regularFile [97]"
      and st = "\<lparr>h = crc32_NewIEEE, checksumOfChecksums = crc32_NewIEEE, offset = 0\<rparr>"
      and pre = "[]" and evs = "[]"
      and st' = "\<lparr>h = crc32_NewIEEE, checksumOfChecksums = crc32_NewIEEE, offset = 0\<rparr>"
      and part = "crc32Part 1 1 None"
      and bs = "[97]" and post = "[]"]
  by (simp add: run_eval)

end
